theory Spec2Isabelle
  imports Main "HOL-Library.AList"
begin

section \<open>Host language: errors, values, strings\<close>

text \<open>
  The template engine is JavaScript.  A \<^typ>\<open>char\<close> stands for one UTF-16 code unit
  below 256; strings are lists of them.  An exception is a value: \<open>Error\<close> carries the
  message of a \<^verbatim>\<open>new Error(msg)\<close> of the program, \<open>TypeError\<close> is raised by the host
  (its payload names the failing operation, not the host's wording), \<open>ParseError\<close> is
  the engine's own class with its \<^verbatim>\<open>level\<close>.
\<close>

datatype err = Error string | TypeError string | ParseError string nat

text \<open>Context data: JSON-like values and \<^verbatim>\<open>undefined\<close>; numbers are integers.\<close>

datatype jsval = Undefined | Null | Bool bool | Num int | Str string
  | Arr "jsval list" | Obj "(string \<times> jsval) list"

type_synonym ctx = "(string \<times> jsval) list"

definition is_space :: "char \<Rightarrow> bool" where
  \<comment> \<open>the class \<^verbatim>\<open>\s\<close>, which is also what \<^verbatim>\<open>trim\<close> removes\<close>
  "is_space c = (c \<in> set [CHR 0x09, CHR 0x0A, CHR 0x0B, CHR 0x0C, CHR 0x0D, CHR 0x20, CHR 0xA0])"

definition is_digit :: "char \<Rightarrow> bool" where
  "is_digit c = (c \<in> set ''0123456789'')"

definition to_lower :: "char \<Rightarrow> char" where
  "to_lower c = (case map_of (zip ''ABCDEFGHIJKLMNOPQRSTUVWXYZ'' ''abcdefghijklmnopqrstuvwxyz'') c of
      Some l \<Rightarrow> l | None \<Rightarrow> c)"

definition to_upper :: "char \<Rightarrow> char" where
  "to_upper c = (case map_of (zip ''abcdefghijklmnopqrstuvwxyz'' ''ABCDEFGHIJKLMNOPQRSTUVWXYZ'') c of
      Some u \<Rightarrow> u | None \<Rightarrow> c)"

definition toUpperCase :: "string \<Rightarrow> string" where
  \<comment> \<open>only ever applied to the directive names, which are ASCII\<close>
  "toUpperCase s = map to_upper s"

definition trim :: "string \<Rightarrow> string" where
  "trim s = rev (dropWhile is_space (rev (dropWhile is_space s)))"

definition startsWith :: "string \<Rightarrow> string \<Rightarrow> bool" where
  "startsWith s p = (take (length p) s = p)"

definition startsWith_ci :: "string \<Rightarrow> string \<Rightarrow> bool" where
  \<comment> \<open>a lower-case pattern \<open>p\<close> under the \<^verbatim>\<open>i\<close> flag\<close>
  "startsWith_ci s p = (map to_lower (take (length p) s) = p)"

fun find_suffix :: "(string \<Rightarrow> bool) \<Rightarrow> string \<Rightarrow> nat option" where
  "find_suffix P [] = (if P [] then Some 0 else None)"
| "find_suffix P (c # cs) = (if P (c # cs) then Some 0 else map_option Suc (find_suffix P cs))"

definition digit_char :: "nat \<Rightarrow> char" where
  "digit_char d = ''0123456789'' ! d"

fun show_nat :: "nat \<Rightarrow> string" where
  "show_nat n = (if n < 10 then [digit_char n] else show_nat (n div 10) @ [digit_char (n mod 10)])"

declare show_nat.simps [simp del]

definition digit_val :: "char \<Rightarrow> int" where
  "digit_val c = (case map_of (zip ''0123456789'' [0, 1, 2, 3, 4, 5, 6, 7, 8, 9]) c of
      Some d \<Rightarrow> d | None \<Rightarrow> 0)"

definition digits_value :: "string \<Rightarrow> int" where
  "digits_value s = foldl (\<lambda>a c. 10 * a + digit_val c) 0 s"

subsection \<open>Own properties of an object, in the host's enumeration order\<close>

definition is_array_index :: "string \<Rightarrow> bool" where
  "is_array_index s = (case s of
      [] \<Rightarrow> False
    | c # cs \<Rightarrow> list_all is_digit s \<and> (if cs = [] then True else c \<noteq> CHR ''0'')
                 \<and> digits_value s < 4294967295)"

fun ins_index :: "string \<Rightarrow> 'v \<Rightarrow> (string \<times> 'v) list \<Rightarrow> (string \<times> 'v) list" where
  "ins_index k v [] = [(k, v)]"
| "ins_index k v (p # ps) =
     (if is_array_index (fst p) \<and> digits_value (fst p) < digits_value k
      then p # ins_index k v ps else (k, v) # p # ps)"

definition obj_put :: "string \<Rightarrow> 'v \<Rightarrow> (string \<times> 'v) list \<Rightarrow> (string \<times> 'v) list" where
  \<comment> \<open>\<^verbatim>\<open>o[k] = v\<close>: an existing key keeps its place, a new integer key is enumerated with
      the integer keys in ascending order, any other new key comes last\<close>
  "obj_put k v kvs =
     (if map_of kvs k \<noteq> None then AList.update k v kvs
      else if is_array_index k then ins_index k v kvs
      else kvs @ [(k, v)])"

definition spread :: "(string \<times> 'v) list \<Rightarrow> (string \<times> 'v) list \<Rightarrow> (string \<times> 'v) list" where
  \<comment> \<open>\<^verbatim>\<open>{...a, ...b}\<close>\<close>
  "spread a b = foldl (\<lambda>acc (k, v). obj_put k v acc) a b"

subsection \<open>\<^verbatim>\<open>String.prototype.replace\<close> with a global pattern\<close>

text \<open>
  A pattern is a function that, given the text from the current position on, returns
  the length of the match starting there (never 0 for the patterns of this program).
  \<open>skip\<close> counts the characters of the last match still to be passed over.
\<close>

type_synonym pattern = "string \<Rightarrow> nat option"

fun replace_all :: "pattern \<Rightarrow> (string \<Rightarrow> string) \<Rightarrow> nat \<Rightarrow> string \<Rightarrow> string" where
  "replace_all m f skip [] = []"
| "replace_all m f skip (c # cs) =
     (if 0 < skip then replace_all m f (skip - 1) cs
      else case m (c # cs) of
        None \<Rightarrow> c # replace_all m f 0 cs
      | Some len \<Rightarrow> f (take len (c # cs)) @ replace_all m f (len - 1) cs)"

fun replace_st :: "pattern \<Rightarrow> (string \<Rightarrow> 's \<Rightarrow> string \<times> 's) \<Rightarrow> nat \<Rightarrow> string \<Rightarrow> 's \<Rightarrow> string \<times> 's" where
  "replace_st m f skip [] st = ([], st)"
| "replace_st m f skip (c # cs) st =
     (if 0 < skip then replace_st m f (skip - 1) cs st
      else case m (c # cs) of
        None \<Rightarrow> (case replace_st m f 0 cs st of (r, st') \<Rightarrow> (c # r, st'))
      | Some len \<Rightarrow>
          (case f (take len (c # cs)) st of (p, st1) \<Rightarrow>
             (case replace_st m f (len - 1) cs st1 of (r, st') \<Rightarrow> (p @ r, st'))))"

fun replace_err :: "pattern \<Rightarrow> (string \<Rightarrow> err + string) \<Rightarrow> nat \<Rightarrow> string \<Rightarrow> err + string" where
  "replace_err m f skip [] = Inr []"
| "replace_err m f skip (c # cs) =
     (if 0 < skip then replace_err m f (skip - 1) cs
      else case m (c # cs) of
        None \<Rightarrow> (case replace_err m f 0 cs of Inl e \<Rightarrow> Inl e | Inr r \<Rightarrow> Inr (c # r))
      | Some len \<Rightarrow>
          (case f (take len (c # cs)) of
             Inl e \<Rightarrow> Inl e
           | Inr p \<Rightarrow> (case replace_err m f (len - 1) cs of Inl e \<Rightarrow> Inl e | Inr r \<Rightarrow> Inr (p @ r))))"

section \<open>The parser (htmlparser.js)\<close>

datatype node_type = ELEMENT_NODE | TEXT_NODE | CDATA_SECTION_NODE
  | PROCESSING_INSTRUCTION_NODE | COMMENT_NODE | DOCUMENT_TYPE_NODE

datatype tag_state = Open | Close

record entity =
  e_type :: node_type
  e_data :: string
  e_state :: "tag_state option"

text \<open>
  A \<^verbatim>\<open>Node\<close> object lives in a heap and is named by its address, since the interpreter
  writes to nodes of a tree that the cache shares between renders.  The fields are
  those of the class (\<^verbatim>\<open>_children\<close>, \<^verbatim>\<open>_raw\<close>, ...); \<open>node_condition\<close> is the own property
  \<^verbatim>\<open>__condition__\<close> that the interpreter adds (\<open>None\<close>: the node has no such property).
  The class declares no property \<^verbatim>\<open>line\<close>.
\<close>

record node =
  node_children :: "nat list"
  node_raw :: string
  node_isElement :: bool
  node_type :: "node_type option"
  node_tag :: string
  node_attrs :: "(string \<times> string) list"
  node_closed :: bool
  node_index :: nat
  node_parent :: "nat option"
  node_condition :: "bool option"

text \<open>
  The mutable state of the process: the heap of nodes, the module variables
  \<^verbatim>\<open>PLACEHOLDERS\<close>, \<^verbatim>\<open>placeholderIndex\<close> and \<^verbatim>\<open>DOM_CACHE\<close>, the \<^verbatim>\<open>TREE_CACHE\<close> of the engine
  that is running, the labels passed to \<^verbatim>\<open>console.time\<close> and \<^verbatim>\<open>console.timeEnd\<close>, and
  the number of clock and random readings taken so far.
\<close>

record world =
  heap :: "node list"
  PLACEHOLDERS :: "(string \<times> string) list"
  placeholderIndex :: nat
  DOM_CACHE :: "(string \<times> nat list) list"
  TREE_CACHE :: "(string \<times> nat list \<times> string) list"
  console :: "string list"
  ticks :: nat

definition init_world :: world where
  "init_world = \<lparr>heap = [], PLACEHOLDERS = [], placeholderIndex = 0, DOM_CACHE = [],
     TREE_CACHE = [], console = [], ticks = 0\<rparr>"

definition console_log :: "string \<Rightarrow> world \<Rightarrow> world" where
  "console_log l w = w\<lparr>console := console w @ [l]\<rparr>"

subsection \<open>Entities\<close>

definition is_tag_start :: "char \<Rightarrow> bool" where
  \<comment> \<open>\<^verbatim>\<open>[a-z_\-\/]\<close> under the \<^verbatim>\<open>i\<close> flag\<close>
  "is_tag_start c = (to_lower c \<in> set ''abcdefghijklmnopqrstuvwxyz_-/'')"

definition getEntityType :: "string \<Rightarrow> node_type" where
  "getEntityType d =
     (if startsWith d ''<!--'' then COMMENT_NODE
      else if startsWith d ''<!CDATA[['' then CDATA_SECTION_NODE
      else if startsWith d ''<?'' then PROCESSING_INSTRUCTION_NODE
      else if startsWith_ci d ''<!doctype '' then DOCUMENT_TYPE_NODE
      else if (case d of c # c' # _ \<Rightarrow> c = CHR ''<'' \<and> is_tag_start c' | _ \<Rightarrow> False) then ELEMENT_NODE
      else TEXT_NODE)"

definition Entity :: "string \<Rightarrow> entity" where
  "Entity d = (let t = getEntityType d in
     \<lparr>e_type = t, e_data = d,
      e_state = (if t = ELEMENT_NODE
                 then (if startsWith (drop 1 d) ''/'' then Some Close else Some Open)
                 else None)\<rparr>)"

fun scan_tag :: "string \<Rightarrow> string" where
  \<comment> \<open>the loop of \<^verbatim>\<open>getNextEntity\<close> once \<^verbatim>\<open>ltFound\<close> is set\<close>
  "scan_tag [] = []"
| "scan_tag (c # cs) =
     (if c = CHR ''<'' then [] else if c = CHR ''>'' then [c] else c # scan_tag cs)"

definition getNextEntity :: "string \<Rightarrow> nat \<Rightarrow> entity" where
  "getNextEntity content offset =
     Entity (case drop offset content of
        [] \<Rightarrow> []
      | c # cs \<Rightarrow> if c = CHR ''<'' then c # scan_tag cs
                  else takeWhile (\<lambda>x. x \<noteq> CHR ''<'') (c # cs))"

subsection \<open>Placeholders\<close>

definition getPlaceholder :: "world \<Rightarrow> string \<times> world" where
  "getPlaceholder w = (let i = placeholderIndex w + 1 in
     (''_@#!'' @ show_nat i @ ''!#@_'', w\<lparr>placeholderIndex := i\<rparr>))"

definition m_placeholder :: pattern where
  \<comment> \<open>\<^verbatim>\<open>/_@#![0-9]+!#@_/\<close>\<close>
  "m_placeholder s =
     (if startsWith s ''_@#!'' then
        (let ds = takeWhile is_digit (drop 4 s) in
         if ds \<noteq> [] \<and> startsWith (drop (4 + length ds) s) ''!#@_''
         then Some (4 + length ds + 4) else None)
      else None)"

definition decode_cb :: "bool \<Rightarrow> string \<Rightarrow> world \<Rightarrow> string \<times> world" where
  \<comment> \<open>a placeholder that is not in the table is replaced by the text \<^verbatim>\<open>undefined\<close>\<close>
  "decode_cb remove p w =
     (case map_of (PLACEHOLDERS w) p of None \<Rightarrow> ''undefined'' | Some v \<Rightarrow> v,
      if remove then w\<lparr>PLACEHOLDERS := AList.delete p (PLACEHOLDERS w)\<rparr> else w)"

definition decode :: "string \<Rightarrow> bool \<Rightarrow> world \<Rightarrow> string \<times> world" where
  "decode text remove w = replace_st m_placeholder (decode_cb remove) 0 text w"

subsection \<open>\<^verbatim>\<open>preProcess\<close>\<close>

definition m_escape :: pattern where
  \<comment> \<open>\<^verbatim>\<open>/\\./\<close>: a backslash and one character that is not a line terminator\<close>
  "m_escape s = (case s of
      c # c' # _ \<Rightarrow> if c = CHR 0x5C \<and> c' \<noteq> CHR 0x0A \<and> c' \<noteq> CHR 0x0D then Some 2 else None
    | _ \<Rightarrow> None)"

definition m_block :: pattern where
  \<comment> \<open>\<^verbatim>\<open>/<(style|script)[\s\S]+?<\/\1>/i\<close>\<close>
  "m_block s = (case s of
      [] \<Rightarrow> None
    | c # r \<Rightarrow>
       if c \<noteq> CHR ''<'' then None
       else (case (if startsWith_ci r ''style'' then Some ''style''
                   else if startsWith_ci r ''script'' then Some ''script'' else None) of
          None \<Rightarrow> None
        | Some t \<Rightarrow>
           (case drop (length t) r of
              [] \<Rightarrow> None
            | _ # rest \<Rightarrow>
               (case find_suffix (\<lambda>u. startsWith_ci u (''</'' @ t @ ''>'')) rest of
                  None \<Rightarrow> None
                | Some k \<Rightarrow> Some (1 + length t + 1 + k + (length t + 3))))))"

definition m_void :: pattern where
  \<comment> \<open>\<^verbatim>\<open>/<(link|meta)[\s\S]+?>/i\<close>\<close>
  "m_void s = (case s of
      [] \<Rightarrow> None
    | c # r \<Rightarrow>
       if c = CHR ''<'' \<and> (startsWith_ci r ''link'' \<or> startsWith_ci r ''meta'') then
         (case drop 4 r of
            [] \<Rightarrow> None
          | _ # rest \<Rightarrow>
             (case find_suffix (\<lambda>u. startsWith u ''>'') rest of
                None \<Rightarrow> None
              | Some k \<Rightarrow> Some (1 + 4 + 1 + k + 1)))
       else None)"

definition m_expr :: pattern where
  \<comment> \<open>\<^verbatim>\<open>/\{\{[\s\S]+?\}\}/\<close>, also written \<^verbatim>\<open>/{{2}([\s\S]+?)}{2}/\<close>\<close>
  "m_expr s =
     (if startsWith s ''{{'' then
        (case drop 2 s of
           [] \<Rightarrow> None
         | _ # rest \<Rightarrow>
            (case find_suffix (\<lambda>u. startsWith u ''}}'') rest of
               None \<Rightarrow> None
             | Some k \<Rightarrow> Some (2 + 1 + k + 2)))
      else None)"

definition is_quote :: "char \<Rightarrow> bool" where
  "is_quote c = (c = CHR 0x27 \<or> c = CHR 0x22)"

definition m_attr :: pattern where
  \<comment> \<open>\<^verbatim>\<open>/=\s*(['"])([\s\S]*?)\1/\<close>\<close>
  "m_attr s = (case s of
      [] \<Rightarrow> None
    | c # r \<Rightarrow>
       if c \<noteq> CHR ''='' then None
       else (case dropWhile is_space r of
          [] \<Rightarrow> None
        | q # v \<Rightarrow>
           if is_quote q then
             (case find_suffix (\<lambda>u. startsWith u [q]) v of
                None \<Rightarrow> None
              | Some k \<Rightarrow> Some (1 + (length r - length (q # v)) + 1 + k + 1))
           else None))"

definition mask_cb :: "string \<Rightarrow> world \<Rightarrow> string \<times> world" where
  \<comment> \<open>the callback of the first four replacements: the whole match is stored\<close>
  "mask_cb input w = (case getPlaceholder w of (p, w1) \<Rightarrow>
     (p, w1\<lparr>PLACEHOLDERS := obj_put p input (PLACEHOLDERS w1)\<rparr>))"

definition attr_value_of :: "string \<Rightarrow> string" where
  \<comment> \<open>the second group of \<open>m_attr\<close>: the text between the quotes\<close>
  "attr_value_of input = butlast (drop 1 (dropWhile is_space (drop 1 input)))"

definition mask_attr_cb :: "string \<Rightarrow> world \<Rightarrow> string \<times> world" where
  "mask_attr_cb input w = (case getPlaceholder w of (p, w1) \<Rightarrow>
     (''='' @ p, w1\<lparr>PLACEHOLDERS := obj_put p (attr_value_of input) (PLACEHOLDERS w1)\<rparr>))"

definition preProcess :: "string \<Rightarrow> world \<Rightarrow> string \<times> world" where
  "preProcess content w =
     (case replace_st m_escape mask_cb 0 content (console_log ''time preProcess'' w) of (c1, w1) \<Rightarrow>
      case replace_st m_block mask_cb 0 c1 w1 of (c2, w2) \<Rightarrow>
      case replace_st m_void mask_cb 0 c2 w2 of (c3, w3) \<Rightarrow>
      case replace_st m_expr mask_cb 0 c3 w3 of (c4, w4) \<Rightarrow>
      case replace_st m_attr mask_attr_cb 0 c4 w4 of (c5, w5) \<Rightarrow>
        (c5, console_log ''timeEnd preProcess'' w5))"

subsection \<open>Nodes\<close>

definition empty_node :: node where
  \<comment> \<open>the field initialisers of the class\<close>
  "empty_node = \<lparr>node_children = [], node_raw = [], node_isElement = False, node_type = None,
     node_tag = [], node_attrs = [], node_closed = False, node_index = 0, node_parent = None,
     node_condition = None\<rparr>"

definition alloc :: "node \<Rightarrow> world \<Rightarrow> nat \<times> world" where
  "alloc n w = (length (heap w), w\<lparr>heap := heap w @ [n]\<rparr>)"

definition strip_gt :: "string \<Rightarrow> string" where
  \<comment> \<open>\<^verbatim>\<open>.replace(/[>\r\n]+$/, '')\<close>\<close>
  "strip_gt s = rev (dropWhile (\<lambda>c. c = CHR ''>'' \<or> c = CHR 0x0D \<or> c = CHR 0x0A) (rev s))"

definition attr_name_char :: "char \<Rightarrow> bool" where
  \<comment> \<open>\<^verbatim>\<open>[^\s=]\<close>\<close>
  "attr_name_char c = (\<not> is_space c \<and> c \<noteq> CHR ''='')"

definition attr_match :: "string \<Rightarrow> (string \<times> string option \<times> string) option" where
  \<comment> \<open>one \<^verbatim>\<open>attrReg.exec\<close>: the leftmost match of \<^verbatim>\<open>/(?<name>[^\s=]+)(=(?<value>[\S]*))?/\<close> in the
      text from \<^verbatim>\<open>lastIndex\<close> on: its name, its value when the group took part, and the text
      after the match\<close>
  "attr_match text =
     (case dropWhile (\<lambda>c. \<not> attr_name_char c) text of
        [] \<Rightarrow> None
      | c # cs \<Rightarrow>
         (let name = takeWhile attr_name_char (c # cs);
              rest = dropWhile attr_name_char (c # cs)
          in case rest of
               [] \<Rightarrow> Some (name, None, [])
             | e # r \<Rightarrow>
                if e = CHR ''='' then
                  Some (name, Some (takeWhile (\<lambda>x. \<not> is_space x) r), dropWhile (\<lambda>x. \<not> is_space x) r)
                else Some (name, None, rest)))"

lemma attr_match_shorter:
  assumes "attr_match s = Some (name, value, rest)"
  shows "length rest < length s"
proof -
  define d where "d = dropWhile (\<lambda>c. \<not> attr_name_char c) s"
  define r0 where "r0 = dropWhile attr_name_char d"
  have ld: "length d \<le> length s"
    unfolding d_def by (rule length_dropWhile_le)
  have ne: "d \<noteq> []"
  proof
    assume "d = []"
    then have "attr_match s = None"
      unfolding attr_match_def d_def [symmetric] by simp
    with assms show False by simp
  qed
  then have "attr_name_char (hd d)"
    unfolding d_def using hd_dropWhile [of "\<lambda>c. \<not> attr_name_char c" s] by simp
  with ne have lr0: "length r0 < length d"
    unfolding r0_def using length_dropWhile_le [of attr_name_char "tl d"] by (cases d) auto
  have m: "(case r0 of [] \<Rightarrow> Some (takeWhile attr_name_char d, None, [])
            | e # r \<Rightarrow> if e = CHR ''='' then
                  Some (takeWhile attr_name_char d, Some (takeWhile (\<lambda>x. \<not> is_space x) r), dropWhile (\<lambda>x. \<not> is_space x) r)
                else Some (takeWhile attr_name_char d, None, r0)) = Some (name, value, rest)"
    using assms ne unfolding attr_match_def d_def [symmetric] r0_def Let_def
    by (cases d) (auto simp del: dropWhile.simps takeWhile.simps)
  have "length rest \<le> length r0"
  proof (cases r0)
    case Nil
    with m show ?thesis by simp
  next
    case (Cons e r)
    with m show ?thesis
      using length_dropWhile_le [of "\<lambda>x. \<not> is_space x" r]
      by (auto split: if_splits)
  qed
  with ld lr0 show ?thesis by simp
qed

function resolve_attrs :: "string \<Rightarrow> (string \<times> string) list \<Rightarrow> world \<Rightarrow> err + (string \<times> string) list" where
  "resolve_attrs text attrs w =
     (case attr_match text of
        None \<Rightarrow> Inr attrs
      | Some (name, value, rest) \<Rightarrow>
         (case map_of (PLACEHOLDERS w) (case value of None \<Rightarrow> ''undefined'' | Some v \<Rightarrow> v) of
            None \<Rightarrow> Inl (TypeError ''decode: text.replace'')
          | Some v \<Rightarrow>
             resolve_attrs rest
               (if name = ''__proto__'' then attrs else obj_put name (fst (decode v False w)) attrs) w))"
  by pat_completeness auto
termination
  by (relation "measure (\<lambda>(text, attrs, w). length text)") (auto dest: attr_match_shorter)

declare resolve_attrs.simps [simp del]

definition resolve :: "entity \<Rightarrow> node \<Rightarrow> world \<Rightarrow> err + node" where
  \<comment> \<open>\<^verbatim>\<open>Node._resolve\<close>; \<^verbatim>\<open>decode\<close> without \<^verbatim>\<open>remove\<close> leaves the table as it is\<close>
  "resolve e n w =
     (let tagName = takeWhile (\<lambda>c. \<not> is_space c \<and> c \<noteq> CHR ''>'') (drop 1 (e_data e)) in
      if startsWith (e_data e) ''<'' \<and> tagName \<noteq> [] then
        (case resolve_attrs (strip_gt (drop (length tagName + 1) (e_data e))) (node_attrs n) w of
           Inl x \<Rightarrow> Inl x
         | Inr attrs \<Rightarrow> Inr (n\<lparr>node_tag := fst (decode tagName False w), node_attrs := attrs\<rparr>))
      else Inl (TypeError ''exec(...)[1]''))"

definition new_Node :: "entity \<Rightarrow> world \<Rightarrow> (err + nat) \<times> world" where
  \<comment> \<open>the constructor, called with an entity\<close>
  "new_Node e w =
     (let n0 = empty_node\<lparr>node_raw := e_data e, node_type := Some (e_type e),
                 node_isElement := (e_type e = ELEMENT_NODE)\<rparr>
      in case (if e_type e = ELEMENT_NODE then resolve e n0 w else Inr n0) of
           Inl x \<Rightarrow> (Inl x, w)
         | Inr n1 \<Rightarrow>
            (case decode (node_raw n1) False w of (r1, w1) \<Rightarrow>
             case decode r1 True w1 of (r2, w2) \<Rightarrow>
             case alloc (n1\<lparr>node_raw := r2\<rparr>) w2 of (a, w3) \<Rightarrow> (Inr a, w3)))"

definition appendChild :: "nat \<Rightarrow> nat \<Rightarrow> world \<Rightarrow> world" where
  \<comment> \<open>\<^verbatim>\<open>p.appendChild(c)\<close> for two allocated nodes\<close>
  "appendChild p c w =
     (let h = heap w;
          h1 = h[c := (h ! c)\<lparr>node_parent := Some p, node_index := length (node_children (h ! p))\<rparr>];
          h2 = h1[p := (h1 ! p)\<lparr>node_children := node_children (h1 ! p) @ [c]\<rparr>]
      in w\<lparr>heap := h2\<rparr>)"

definition close :: "nat \<Rightarrow> world \<Rightarrow> world" where
  "close c w = w\<lparr>heap := (heap w)[c := (heap w ! c)\<lparr>node_closed := True\<rparr>]\<rparr>"

subsection \<open>The tree builder\<close>

text \<open>
  The body of the \<^verbatim>\<open>while\<close> loop of \<^verbatim>\<open>parse\<close>.  The stack has its top at the head;
  \<^verbatim>\<open>pop\<close> of the empty stack gives \<^verbatim>\<open>undefined\<close>, here \<open>None\<close> for \<^verbatim>\<open>currentNode\<close>.
\<close>

definition parse_step :: "entity \<Rightarrow> nat list \<Rightarrow> nat option \<Rightarrow> world
    \<Rightarrow> (err + nat list \<times> nat option) \<times> world" where
  "parse_step ent stack cur w =
     (case new_Node ent w of
        (Inl x, w1) \<Rightarrow> (Inl x, w1)
      | (Inr nd, w1) \<Rightarrow>
         (case cur of
            None \<Rightarrow> (Inl (TypeError ''currentNode is undefined''), w1)
          | Some c \<Rightarrow>
             if e_type ent \<noteq> ELEMENT_NODE then (Inr (stack, cur), appendChild c nd w1)
             else if node_closed (heap w1 ! c) then
               (case node_parent (heap w1 ! c) of
                  None \<Rightarrow> (Inl (TypeError ''currentNode.parent is undefined''), w1)
                | Some p \<Rightarrow> (Inr (c # stack, Some nd), appendChild p nd w1))
             else if e_state ent = Some Open then (Inr (c # stack, Some nd), appendChild c nd w1)
             else (Inr (case stack of [] \<Rightarrow> ([], None) | t # st \<Rightarrow> (st, Some t)), close c w1)))"

lemma scan_nonempty:
  "offset < length content \<Longrightarrow> 0 < length (e_data (getNextEntity content offset))"
proof -
  assume "offset < length content"
  then obtain c cs where d: "drop offset content = c # cs"
    by (cases "drop offset content") auto
  then show ?thesis
    by (cases "c = CHR ''<''") (simp_all add: getNextEntity_def Entity_def Let_def)
qed

function parse_loop :: "string \<Rightarrow> nat \<Rightarrow> nat list \<Rightarrow> nat option \<Rightarrow> world \<Rightarrow> (err + unit) \<times> world" where
  "parse_loop content index stack cur w =
     (if index < length content then
        (case parse_step (getNextEntity content index) stack cur w of
           (Inl x, w1) \<Rightarrow> (Inl x, w1)
         | (Inr (stack', cur'), w1) \<Rightarrow>
             parse_loop content (index + length (e_data (getNextEntity content index))) stack' cur' w1)
      else (Inr (), w))"
  by pat_completeness auto
termination
proof (relation "measure (\<lambda>(content, index, stack, cur, w). length content - index)")
  show "wf (measure (\<lambda>(content, index, stack, cur, w). length content - index))"
    by simp
next
  fix content :: string and index :: nat and stack :: "nat list" and cur :: "nat option"
    and w :: world and x1 x2 y x1a x2a
  assume "index < length content"
  then show "((content, index + length (e_data (getNextEntity content index)), x1a, x2a, x2),
              (content, index, stack, cur, w))
             \<in> measure (\<lambda>(content, index, stack, cur, w). length content - index)"
    using scan_nonempty [of index content] by (simp del: length_greater_0_conv)
qed

declare parse_loop.simps [simp del]

definition parse :: "string \<Rightarrow> world \<Rightarrow> (err + nat list) \<times> world" where
  "parse content w =
     (case alloc empty_node (console_log ''time parse'' w) of (tree, w1) \<Rightarrow>
      case preProcess content w1 of (c, w2) \<Rightarrow>
      case parse_loop c 0 [tree] (Some tree) w2 of
        (Inl x, w3) \<Rightarrow> (Inl x, w3)
      | (Inr u, w3) \<Rightarrow> (Inr (node_children (heap w3 ! tree)), console_log ''timeEnd parse'' w3))"

section \<open>The interpreter (engine.js)\<close>

subsection \<open>What the engine calls but does not define\<close>

text \<open>
  The expression runner (\<^verbatim>\<open>coderunner.js\<close>), the file system, \<^verbatim>\<open>path\<close>, \<^verbatim>\<open>crypto\<close>, \<^verbatim>\<open>JSON\<close>,
  the clock and the random generator are parameters.  \<open>getTime k\<close> and \<open>random1000 k\<close> are
  \<^verbatim>\<open>new Date().getTime()\<close> and \<^verbatim>\<open>Math.round(Math.random() * 1000)\<close> at the \<open>k\<close>-th reading,
  \<open>elapsed k\<close> is the text \<^verbatim>\<open>(ms + (ns / 1e9)).toFixed(6)\<close> of the \<open>k\<close>-th measurement.
\<close>

record env =
  getExpressionValue :: "ctx \<Rightarrow> string \<Rightarrow> err + jsval"
  runForOf :: "ctx \<Rightarrow> string \<Rightarrow> string option \<Rightarrow> err + jsval list"
  runForIn :: "ctx \<Rightarrow> string \<Rightarrow> string option \<Rightarrow> err + jsval list"
  runCode :: "string \<Rightarrow> ctx \<Rightarrow> err + jsval"
  JSON_stringify :: "jsval \<Rightarrow> string"
  md5 :: "string \<Rightarrow> string"
  readFile :: "string \<Rightarrow> err + string"
  include_path :: "string \<Rightarrow> string \<Rightarrow> string"
  getTime :: "nat \<Rightarrow> nat"
  random1000 :: "nat \<Rightarrow> nat"
  elapsed :: "nat \<Rightarrow> string"

record options =
  cache :: bool
  filename :: string

subsection \<open>Conversions of the host\<close>

definition truthy :: "jsval \<Rightarrow> bool" where
  "truthy v = (case v of Undefined \<Rightarrow> False | Null \<Rightarrow> False | Bool b \<Rightarrow> b | Num i \<Rightarrow> i \<noteq> 0
      | Str s \<Rightarrow> s \<noteq> [] | Arr xs \<Rightarrow> True | Obj kvs \<Rightarrow> True)"

fun join :: "string \<Rightarrow> string list \<Rightarrow> string" where
  "join sep [] = []"
| "join sep [x] = x"
| "join sep (x # y # ys) = x @ sep @ join sep (y # ys)"

fun String_of :: "jsval \<Rightarrow> string" where
  \<comment> \<open>\<^verbatim>\<open>String(value)\<close>, also the conversion of a property key\<close>
  "String_of Undefined = ''undefined''"
| "String_of Null = ''null''"
| "String_of (Bool b) = (if b then ''true'' else ''false'')"
| "String_of (Num i) = (if i < 0 then ''-'' @ show_nat (nat (- i)) else show_nat (nat i))"
| "String_of (Str s) = s"
| "String_of (Arr xs) =
     join '','' (map (\<lambda>x. if x = Undefined \<or> x = Null then [] else String_of x) xs)"
| "String_of (Obj kvs) = ''[object Object]''"

definition get_prop :: "jsval \<Rightarrow> string \<Rightarrow> err + jsval" where
  \<comment> \<open>\<^verbatim>\<open>v[k]\<close> on data: own properties only\<close>
  "get_prop v k = (case v of
      Undefined \<Rightarrow> Inl (TypeError ''property of undefined'')
    | Null \<Rightarrow> Inl (TypeError ''property of null'')
    | Bool b \<Rightarrow> Inr Undefined
    | Num i \<Rightarrow> Inr Undefined
    | Str s \<Rightarrow> Inr (if k = ''length'' then Num (int (length s))
                     else if is_array_index k \<and> digits_value k < int (length s)
                     then Str [s ! nat (digits_value k)] else Undefined)
    | Arr xs \<Rightarrow> Inr (if k = ''length'' then Num (int (length xs))
                     else if is_array_index k \<and> digits_value k < int (length xs)
                     then xs ! nat (digits_value k) else Undefined)
    | Obj kvs \<Rightarrow> Inr (case map_of kvs k of None \<Rightarrow> Undefined | Some x \<Rightarrow> x))"

definition ctx_get :: "ctx \<Rightarrow> string \<Rightarrow> jsval" where
  \<comment> \<open>\<^verbatim>\<open>context[k]\<close>\<close>
  "ctx_get c k = (case map_of c k of None \<Rightarrow> Undefined | Some x \<Rightarrow> x)"

fun split_go :: "string \<Rightarrow> nat \<Rightarrow> string \<Rightarrow> string \<Rightarrow> string list" where
  "split_go sep skip acc [] = [rev acc]"
| "split_go sep skip acc (c # cs) =
     (if 0 < skip then split_go sep (skip - 1) acc cs
      else if startsWith (c # cs) sep then rev acc # split_go sep (length sep - 1) [] cs
      else split_go sep 0 (c # acc) cs)"

definition split :: "string \<Rightarrow> string \<Rightarrow> string list" where
  \<comment> \<open>\<^verbatim>\<open>s.split(sep)\<close> for a non-empty separator\<close>
  "split s sep = split_go sep 0 [] s"

definition nth_opt :: "'a list \<Rightarrow> nat \<Rightarrow> 'a option" where
  \<comment> \<open>an array read, \<open>None\<close> for \<^verbatim>\<open>undefined\<close>\<close>
  "nth_opt xs i = (if i < length xs then Some (xs ! i) else None)"

definition hasOwnProperty :: "(string \<times> string) list \<Rightarrow> string \<Rightarrow> err + bool" where
  \<comment> \<open>\<^verbatim>\<open>attrs.hasOwnProperty(k)\<close>: an attribute of that name hides the method\<close>
  "hasOwnProperty attrs k =
     (if map_of attrs ''hasOwnProperty'' \<noteq> None then Inl (TypeError ''attrs.hasOwnProperty is not a function'')
      else Inr (map_of attrs k \<noteq> None))"

subsection \<open>Expressions and messages\<close>

definition is_plain_object :: "jsval \<Rightarrow> bool" where
  \<comment> \<open>\<^verbatim>\<open>value.constructor && value.constructor.name === 'Object'\<close> for an object of the data\<close>
  "is_plain_object v = (case v of
      Obj kvs \<Rightarrow> (case map_of kvs ''constructor'' of
                    None \<Rightarrow> True
                  | Some c \<Rightarrow> (case c of Obj kv \<Rightarrow> map_of kv ''name'' = Some (Str ''Object'') | _ \<Rightarrow> False))
    | _ \<Rightarrow> False)"

definition escape_html :: "string \<Rightarrow> string" where
  "escape_html s = replace_all (\<lambda>u. if startsWith u ''>'' then Some 1 else None) (\<lambda>_. ''&gt;'') 0
     (replace_all (\<lambda>u. if startsWith u ''<'' then Some 1 else None) (\<lambda>_. ''&lt;'') 0 s)"

definition expr_cb :: "env \<Rightarrow> ctx \<Rightarrow> string \<Rightarrow> err + string" where
  \<comment> \<open>the callback of \<^verbatim>\<open>resolveExpression\<close>; \<open>input\<close> is the whole span\<close>
  "expr_cb E context input =
     (case getExpressionValue E context (trim (take (length input - 4) (drop 2 input))) of
        Inl e \<Rightarrow> Inl e
      | Inr v \<Rightarrow>
         if v = Null then Inl (TypeError ''value.constructor'')
         else (let v' = (if is_plain_object v then Str (JSON_stringify E v) else v) in
               if truthy (ctx_get context ''__useRawHTML'') then Inr (String_of v')
               else Inr (escape_html (String_of v'))))"

definition resolveExpression :: "env \<Rightarrow> string \<Rightarrow> ctx \<Rightarrow> err + string" where
  "resolveExpression E content context = replace_err m_expr (expr_cb E context) 0 content"

definition renderTemplateTag :: "string \<Rightarrow> string \<Rightarrow> string" where
  "renderTemplateTag tag children =
     ''<!-- '' @ toUpperCase tag @ '' BEGIN -->'' @ [CHR 0x0A] @ children @ [CHR 0x0A]
     @ ''<!-- '' @ toUpperCase tag @ '' END -->''"

definition node_line :: "node \<Rightarrow> nat option" where
  \<comment> \<open>\<^verbatim>\<open>node.line\<close>: no code gives a node this property, so the read is \<^verbatim>\<open>undefined\<close>\<close>
  "node_line n = None"

definition message :: "err \<Rightarrow> string" where
  "message e = (case e of Error m \<Rightarrow> m | TypeError m \<Rightarrow> m | ParseError m l \<Rightarrow> m)"

definition padStart :: "string \<Rightarrow> nat \<Rightarrow> char \<Rightarrow> string" where
  "padStart s n c = replicate (n - length s) c @ s"

definition raiseTemplateError :: "options \<Rightarrow> node \<Rightarrow> err \<Rightarrow> err" where
  \<comment> \<open>the error that the function throws; both branches read \<^verbatim>\<open>node.line.toString()\<close>\<close>
  "raiseTemplateError opts n e =
     (case node_line n of
        None \<Rightarrow> TypeError ''node.line.toString''
      | Some l \<Rightarrow>
         (case e of
            ParseError m level \<Rightarrow>
              ParseError (m @ [CHR 0x0A] @ padStart (show_nat l) 5 CHR '' '' @ '':''
                          @ replicate (level + 1) CHR '' '' @ '' '' @ trim (node_raw n)) (level + 1)
          | _ \<Rightarrow>
              ParseError (message e @ [CHR 0x0A] @ filename opts @ '':'' @ show_nat l @ [CHR 0x0A]
                          @ padStart (show_nat l) 5 CHR '' '' @ '': '' @ trim (node_raw n) @ [CHR 0x0A]
                          @ replicate (length (padStart (show_nat l) 5 CHR '' '') + 2) CHR '' ''
                          @ replicate (length (trim (node_raw n))) CHR ''^'') 0))"

subsection \<open>Promises\<close>

text \<open>
  A call of an \<^verbatim>\<open>async\<close> function runs its body up to the first \<^verbatim>\<open>await\<close> at once and
  returns a promise; the rest runs later.  A call is therefore a function from the world
  to a \<^emph>\<open>job\<close> (what is left to run, and gives the promise its value) and the world as the
  synchronous part leaves it.  \<^verbatim>\<open>Promise.all(xs.map(f))\<close> starts every \<open>f x\<close> in order
  (\<open>start_all\<close>) and then waits for all of them (\<open>all_jobs\<close>).  The jobs of one
  \<^verbatim>\<open>Promise.all\<close> are run to their end one after the other, in the order of the array;
  the host interleaves them at each \<^verbatim>\<open>await\<close>, always after the synchronous part of
  the call that created them.  A job returns \<open>None\<close> when the recursion bound of
  \<open>parseElement\<close> was reached.
\<close>

type_synonym 'a result = "((err + 'a) \<times> world) option"
type_synonym job = "world \<Rightarrow> string result"

definition resolved :: "string \<Rightarrow> job" where
  "resolved s = (\<lambda>w. Some (Inr s, w))"

definition rejected :: "err \<Rightarrow> job" where
  "rejected e = (\<lambda>w. Some (Inl e, w))"

definition settled :: "err + string \<Rightarrow> job" where
  "settled r = (\<lambda>w. Some (r, w))"

definition diverged :: job where
  "diverged = (\<lambda>w. None)"

definition then_job :: "job \<Rightarrow> (string \<Rightarrow> err + string) \<Rightarrow> job" where
  \<comment> \<open>\<^verbatim>\<open>f(await j)\<close>\<close>
  "then_job j f = (\<lambda>w. case j w of
      None \<Rightarrow> None
    | Some (Inl e, w') \<Rightarrow> Some (Inl e, w')
    | Some (Inr s, w') \<Rightarrow> Some (f s, w'))"

definition catch_job :: "job \<Rightarrow> (err \<Rightarrow> err) \<Rightarrow> job" where
  \<comment> \<open>\<^verbatim>\<open>try { return await j } catch (e) { throw h(e) }\<close>\<close>
  "catch_job j h = (\<lambda>w. case j w of
      None \<Rightarrow> None
    | Some (Inl e, w') \<Rightarrow> Some (Inl (h e), w')
    | Some (Inr s, w') \<Rightarrow> Some (Inr s, w'))"

fun start_all :: "('a \<Rightarrow> world \<Rightarrow> job \<times> world) \<Rightarrow> 'a list \<Rightarrow> world \<Rightarrow> job list \<times> world" where
  "start_all f [] w = ([], w)"
| "start_all f (x # xs) w =
     (case f x w of (j, w1) \<Rightarrow> case start_all f xs w1 of (js, w2) \<Rightarrow> (j # js, w2))"

fun all_jobs :: "job list \<Rightarrow> world \<Rightarrow> (string list) result" where
  "all_jobs [] w = Some (Inr [], w)"
| "all_jobs (j # js) w =
     (case j w of
        None \<Rightarrow> None
      | Some (r, w1) \<Rightarrow>
         (case all_jobs js w1 of
            None \<Rightarrow> None
          | Some (rs, w2) \<Rightarrow>
             Some (case r of Inl e \<Rightarrow> Inl e
                   | Inr s \<Rightarrow> (case rs of Inl e \<Rightarrow> Inl e | Inr ss \<Rightarrow> Inr (s # ss)), w2)))"

definition join_jobs :: "job list \<Rightarrow> (string list \<Rightarrow> err + string) \<Rightarrow> job" where
  \<comment> \<open>\<^verbatim>\<open>k(await Promise.all(jobs))\<close>\<close>
  "join_jobs jobs k = (\<lambda>w. case all_jobs jobs w of
      None \<Rightarrow> None
    | Some (Inl e, w') \<Rightarrow> Some (Inl e, w')
    | Some (Inr ss, w') \<Rightarrow> Some (k ss, w'))"

subsection \<open>Navigation in the tree\<close>

definition isElement :: "node \<Rightarrow> bool" where
  "isElement n = (node_type n = Some ELEMENT_NODE)"

definition get_next :: "world \<Rightarrow> nat \<Rightarrow> err + nat option" where
  \<comment> \<open>the getter \<^verbatim>\<open>next\<close>: \<^verbatim>\<open>this._parent._children[this._index + 1]\<close>\<close>
  "get_next w a = (case node_parent (heap w ! a) of
      None \<Rightarrow> Inl (TypeError ''this._parent._children'')
    | Some p \<Rightarrow> Inr (nth_opt (node_children (heap w ! p)) (node_index (heap w ! a) + 1)))"

definition nextElement :: "world \<Rightarrow> nat \<Rightarrow> err + nat option" where
  "nextElement w a = (case get_next w a of
      Inl e \<Rightarrow> Inl e
    | Inr None \<Rightarrow> Inl (TypeError ''next.isElement'')
    | Inr (Some m) \<Rightarrow> if isElement (heap w ! m) then Inr (Some m) else get_next w m)"

definition attrsString :: "node \<Rightarrow> string" where
  "attrsString n =
     (let temp = map (\<lambda>(key, v). key @ ''='' @ [CHR 0x22] @ v @ [CHR 0x22]) (node_attrs n)
      in if temp = [] then [] else '' '' @ join '' '' temp)"

definition set_condition :: "nat \<Rightarrow> bool \<Rightarrow> world \<Rightarrow> world" where
  \<comment> \<open>\<^verbatim>\<open>nextNode.__condition__ = b\<close>\<close>
  "set_condition a b w = w\<lparr>heap := (heap w)[a := (heap w ! a)\<lparr>node_condition := Some b\<rparr>]\<rparr>"

subsection \<open>The directives\<close>

text \<open>
  Every function below takes \<open>pe\<close>, the function \<^verbatim>\<open>parseElement\<close> of the engine, which
  is defined last.
\<close>

type_synonym renderer = "nat \<Rightarrow> ctx \<Rightarrow> world \<Rightarrow> job \<times> world"

definition parseChildren :: "env \<Rightarrow> renderer \<Rightarrow> nat list \<Rightarrow> ctx \<Rightarrow> world \<Rightarrow> job \<times> world" where
  "parseChildren E pe children context w =
     (case start_all (\<lambda>element. pe element context) children w of
        (temp, w1) \<Rightarrow> (join_jobs temp (\<lambda>ss. resolveExpression E (concat ss) context), w1))"

definition missing_on :: "string \<Rightarrow> err" where
  "missing_on tag = Error (''Missing attribute '' @ [CHR 0x22] @ ''on'' @ [CHR 0x22] @ '' for '' @ tag)"

fun for_loop :: "(ctx \<Rightarrow> world \<Rightarrow> job \<times> world) \<Rightarrow> (jsval \<Rightarrow> ctx) \<Rightarrow> jsval list \<Rightarrow> string \<Rightarrow> job" where
  \<comment> \<open>the iterations of \<^verbatim>\<open>renderFor\<close> after the first \<^verbatim>\<open>await\<close>\<close>
  "for_loop body mk [] acc w = Some (Inr acc, w)"
| "for_loop body mk (item # items) acc w =
     (case body (mk item) w of (j, w1) \<Rightarrow>
        (case j w1 of
           None \<Rightarrow> None
         | Some (Inl e, w2) \<Rightarrow> Some (Inl e, w2)
         | Some (Inr s, w2) \<Rightarrow> for_loop body mk items (acc @ s) w2))"

definition renderFor :: "env \<Rightarrow> renderer \<Rightarrow> node \<Rightarrow> ctx \<Rightarrow> world \<Rightarrow> job \<times> world" where
  "renderFor E pe n context w =
     (case hasOwnProperty (node_attrs n) ''on'' of
        Inl e \<Rightarrow> (rejected e, w)
      | Inr has \<Rightarrow>
         if \<not> has then (rejected (missing_on ''t-for''), w)
         else (case map_of (node_attrs n) ''on'' of
            None \<Rightarrow> (rejected (TypeError ''expression.split''), w)
          | Some expression \<Rightarrow>
             (let temp = split expression '' '';
                  varName = (case temp of [] \<Rightarrow> [] | x # _ \<Rightarrow> x);
                  operator = nth_opt temp 1;
                  dataName = nth_opt temp 2;
                  loopContext =
                    (if operator = Some ''of'' then runForOf E context varName dataName
                     else if operator = Some ''in'' then runForIn E context varName dataName
                     else Inl (TypeError ''loopContext is not iterable''));
                  body = parseChildren E pe (node_children n);
                  mk = (\<lambda>item. obj_put varName item context)
              in case loopContext of
                   Inl e \<Rightarrow> (rejected e, w)
                 | Inr [] \<Rightarrow> (resolved [], w)
                 | Inr (item # items) \<Rightarrow>
                    (case body (mk item) w of (j, w1) \<Rightarrow>
                       (\<lambda>w'. case j w' of
                           None \<Rightarrow> None
                         | Some (Inl e, w2) \<Rightarrow> Some (Inl e, w2)
                         | Some (Inr s, w2) \<Rightarrow> for_loop body mk items s w2, w1)))))"

definition renderCondition :: "env \<Rightarrow> renderer \<Rightarrow> nat \<Rightarrow> ctx \<Rightarrow> world \<Rightarrow> job \<times> world" where
  "renderCondition E pe a context w =
     (case map_of (node_attrs (heap w ! a)) ''on'' of
        None \<Rightarrow> (rejected (TypeError ''expression''), w)
      | Some expression \<Rightarrow>
         (case getExpressionValue E context expression of
            Inl e \<Rightarrow> (rejected e, w)
          | Inr result \<Rightarrow>
             (case nextElement w a of
                Inl e \<Rightarrow> (rejected e, w)
              | Inr nextNode \<Rightarrow>
                 (let w1 = (case nextNode of
                              None \<Rightarrow> w
                            | Some m \<Rightarrow>
                               if node_tag (heap w ! m) = ''t-else'' \<or> node_tag (heap w ! m) = ''t-elif''
                               then set_condition m (\<not> truthy result) w else w)
                  in if \<not> truthy result then (resolved ''<!-- FALSE -->'', w1)
                     else parseChildren E pe (node_children (heap w1 ! a)) context w1))))"

definition renderIf :: "env \<Rightarrow> renderer \<Rightarrow> nat \<Rightarrow> ctx \<Rightarrow> world \<Rightarrow> job \<times> world" where
  "renderIf E pe a context w =
     (case hasOwnProperty (node_attrs (heap w ! a)) ''on'' of
        Inl e \<Rightarrow> (rejected e, w)
      | Inr has \<Rightarrow>
         if \<not> has then (rejected (missing_on ''t-if''), w)
         else renderCondition E pe a context w)"

definition renderElif :: "env \<Rightarrow> renderer \<Rightarrow> nat \<Rightarrow> ctx \<Rightarrow> world \<Rightarrow> job \<times> world" where
  "renderElif E pe a context w =
     (case hasOwnProperty (node_attrs (heap w ! a)) ''on'' of
        Inl e \<Rightarrow> (rejected e, w)
      | Inr has \<Rightarrow>
         if \<not> has then (rejected (missing_on ''t-elif''), w)
         else if node_condition (heap w ! a) = None
         then (rejected (Error ''t-elif must after t-if or t-elif''), w)
         else renderCondition E pe a context w)"

definition renderElse :: "env \<Rightarrow> renderer \<Rightarrow> nat \<Rightarrow> ctx \<Rightarrow> world \<Rightarrow> job \<times> world" where
  "renderElse E pe a context w =
     (case node_condition (heap w ! a) of
        None \<Rightarrow> (rejected (Error ''t-else must after t-if or t-elif''), w)
      | Some c \<Rightarrow>
         if \<not> c then (resolved ''<!-- FALSE -->'', w)
         else parseChildren E pe (node_children (heap w ! a)) context w)"

fun with_alias :: "env \<Rightarrow> ctx \<Rightarrow> (string \<times> string) list \<Rightarrow> (string \<times> string) list \<Rightarrow> ctx \<Rightarrow> err + ctx" where
  \<comment> \<open>the \<^verbatim>\<open>for (const varName in attrs)\<close> loop of \<^verbatim>\<open>renderWith\<close>\<close>
  "with_alias E context attrs [] alias = Inr alias"
| "with_alias E context attrs ((varName, expression) # rest) alias =
     (case hasOwnProperty attrs varName of
        Inl e \<Rightarrow> Inl e
      | Inr has \<Rightarrow>
         if \<not> has then with_alias E context attrs rest alias
         else (case runCode E (''return '' @ expression) context of
                 Inl e \<Rightarrow> Inl e
               | Inr v \<Rightarrow> with_alias E context attrs rest (obj_put varName v alias)))"

definition renderWith :: "env \<Rightarrow> renderer \<Rightarrow> node \<Rightarrow> ctx \<Rightarrow> world \<Rightarrow> job \<times> world" where
  "renderWith E pe n context w =
     (case with_alias E context (node_attrs n) (node_attrs n) [] of
        Inl e \<Rightarrow> (rejected e, w)
      | Inr alias \<Rightarrow>
         if node_attrs n = [] then (rejected (Error ''Must specify at least one attribute for t-with''), w)
         else parseChildren E pe (node_children n) (spread context alias) w)"

definition treeId_of :: "nat \<Rightarrow> nat \<Rightarrow> string" where
  \<comment> \<open>the template literal of the two readings\<close>
  "treeId_of t r = show_nat t @ show_nat r"

definition renderTreeChildren :: "env \<Rightarrow> renderer \<Rightarrow> jsval \<Rightarrow> jsval \<Rightarrow> ctx \<Rightarrow> world \<Rightarrow> job \<times> world" where
  "renderTreeChildren E pe data treeId context w =
     (case map_of (TREE_CACHE w) (String_of treeId) of
        None \<Rightarrow> (rejected (TypeError ''this.TREE_CACHE[treeId]''), w)
      | Some (children, varName) \<Rightarrow>
         (case data of
            Arr items \<Rightarrow>
              (case start_all
                      (\<lambda>item. parseChildren E pe children
                         (obj_put varName item (spread [(''__tree_id__'', treeId)] context))) items w of
                 (temp, w1) \<Rightarrow> (join_jobs temp (\<lambda>ss. Inr (concat ss)), w1))
          | _ \<Rightarrow> (rejected (TypeError ''data.map is not a function''), w)))"

definition renderTree :: "env \<Rightarrow> renderer \<Rightarrow> node \<Rightarrow> ctx \<Rightarrow> world \<Rightarrow> job \<times> world" where
  "renderTree E pe n context w =
     (case hasOwnProperty (node_attrs n) ''on'' of
        Inl e \<Rightarrow> (rejected e, w)
      | Inr has \<Rightarrow>
         if \<not> has then (rejected (missing_on ''t-tree''), w)
         else (case map_of (node_attrs n) ''on'' of
            None \<Rightarrow> (rejected (TypeError ''expression.split''), w)
          | Some expression \<Rightarrow>
             (let parts = split expression '' as '';
                  treeName = (case parts of [] \<Rightarrow> [] | x # _ \<Rightarrow> x);
                  varName = (case nth_opt parts 1 of None \<Rightarrow> ''undefined'' | Some v \<Rightarrow> v);
                  treeData = ctx_get context treeName
              in case treeData of
                   Arr items \<Rightarrow>
                     (let treeId = treeId_of (getTime E (ticks w)) (random1000 E (ticks w));
                          w1 = w\<lparr>ticks := ticks w + 1,
                                 TREE_CACHE := obj_put treeId (node_children n, varName) (TREE_CACHE w)\<rparr>
                      in case renderTreeChildren E pe treeData (Str treeId) context w1 of
                           (result, w2) \<Rightarrow>
                             (result, w2\<lparr>TREE_CACHE := AList.delete treeId (TREE_CACHE w2)\<rparr>))
                 | _ \<Rightarrow> (rejected (Error (''Data must be an Array for t-tree: '' @ treeName)), w))))"

definition renderChildren :: "env \<Rightarrow> renderer \<Rightarrow> node \<Rightarrow> ctx \<Rightarrow> world \<Rightarrow> (err + job) \<times> world" where
  \<comment> \<open>not \<^verbatim>\<open>async\<close>: \<open>Inl\<close> is an exception thrown by the call itself\<close>
  "renderChildren E pe n context w =
     (let treeId = ctx_get context ''__tree_id__'';
          field = (case map_of (node_attrs n) ''field'' of
                     None \<Rightarrow> ''children'' | Some f \<Rightarrow> if f = [] then ''children'' else f)
      in case map_of (TREE_CACHE w) (String_of treeId) of
           None \<Rightarrow> (Inl (TypeError ''this.TREE_CACHE[treeId]''), w)
         | Some (children, varName) \<Rightarrow>
            (case get_prop (ctx_get context varName) field of
               Inl e \<Rightarrow> (Inl e, w)
             | Inr data \<Rightarrow>
                if \<not> truthy data then (Inr (resolved []), w)
                else (case renderTreeChildren E pe data treeId context w of (j, w1) \<Rightarrow> (Inr j, w1))))"

definition renderHTML :: "env \<Rightarrow> renderer \<Rightarrow> node \<Rightarrow> ctx \<Rightarrow> world \<Rightarrow> job \<times> world" where
  "renderHTML E pe n context w =
     parseChildren E pe (node_children n) (obj_put ''__useRawHTML'' (Bool True) context) w"

subsection \<open>The engine\<close>

definition parseDOM :: "env \<Rightarrow> string \<Rightarrow> bool \<Rightarrow> world \<Rightarrow> (err + nat list) \<times> world" where
  "parseDOM E content use_cache w =
     (if \<not> use_cache then parse content w
      else (case map_of (DOM_CACHE w) (md5 E content) of
              Some forest \<Rightarrow> (Inr forest, w)
            | None \<Rightarrow>
               (case parse content w of
                  (Inl e, w1) \<Rightarrow> (Inl e, w1)
                | (Inr forest, w1) \<Rightarrow>
                   (Inr forest, w1\<lparr>DOM_CACHE := obj_put (md5 E content) forest (DOM_CACHE w1)\<rparr>))))"

definition unescape_braces :: "string \<Rightarrow> string" where
  \<comment> \<open>\<^verbatim>\<open>.replace(/{!{/g, '{{').replace(/}!}/g, '}}')\<close>\<close>
  "unescape_braces s =
     replace_all (\<lambda>u. if startsWith u ''}!}'' then Some 3 else None) (\<lambda>_. ''}}'') 0
       (replace_all (\<lambda>u. if startsWith u ''{!{'' then Some 3 else None) (\<lambda>_. ''{{'') 0 s)"

definition Engine_render :: "env \<Rightarrow> (options \<Rightarrow> renderer) \<Rightarrow> options \<Rightarrow> string \<Rightarrow> ctx \<Rightarrow> world \<Rightarrow> job \<times> world" where
  \<comment> \<open>\<^verbatim>\<open>new Engine(content, context, options).render()\<close>, the world's \<open>TREE_CACHE\<close> being
      that of the new engine\<close>
  "Engine_render E pe opts content context w =
     (case parseDOM E content (cache opts) w of
        (Inl e, w1) \<Rightarrow> (rejected e, w1)
      | (Inr forest, w1) \<Rightarrow>
         (case start_all (\<lambda>element. pe opts element context) forest w1 of
            (html, w2) \<Rightarrow> (join_jobs html (\<lambda>ss. Inr (unescape_braces (concat ss))), w2)))"

fun replace_first :: "string \<Rightarrow> string \<Rightarrow> string \<Rightarrow> string" where
  \<comment> \<open>\<^verbatim>\<open>s.replace(p, r)\<close> with a string pattern\<close>
  "replace_first p r [] = (if p = [] then r else [])"
| "replace_first p r (c # cs) =
     (if startsWith (c # cs) p then r @ drop (length p) (c # cs) else c # replace_first p r cs)"

definition timestamp_mark :: string where
  \<comment> \<open>the marker that \<^verbatim>\<open>render\<close> replaces: an at sign, \<^verbatim>\<open>{timestamp}\<close>, an at sign\<close>
  "timestamp_mark = [CHR 0x40] @ ''{timestamp}'' @ [CHR 0x40]"

definition render :: "env \<Rightarrow> (options \<Rightarrow> renderer) \<Rightarrow> string \<Rightarrow> ctx \<Rightarrow> bool \<Rightarrow> job" where
  \<comment> \<open>the exported function, its options carrying \<^verbatim>\<open>cache\<close> only; the engine it creates
      has a \<open>TREE_CACHE\<close> of its own\<close>
  "render E pe file context use_cache w =
     (case readFile E file of
        Inl e \<Rightarrow> Some (Inl e, w)
      | Inr content \<Rightarrow>
         (case Engine_render E pe \<lparr>cache = use_cache, filename = file\<rparr> content context
                 (w\<lparr>TREE_CACHE := []\<rparr>) of
            (j, w1) \<Rightarrow>
              (case j w1 of
                 None \<Rightarrow> None
               | Some (Inl e, w2) \<Rightarrow> Some (Inl e, w2\<lparr>TREE_CACHE := TREE_CACHE w\<rparr>)
               | Some (Inr result, w2) \<Rightarrow>
                  Some (Inr (replace_first timestamp_mark (elapsed E (ticks w2)) result),
                        w2\<lparr>TREE_CACHE := TREE_CACHE w, ticks := ticks w2 + 1\<rparr>))))"

definition renderInclude :: "env \<Rightarrow> (options \<Rightarrow> renderer) \<Rightarrow> options \<Rightarrow> node \<Rightarrow> ctx \<Rightarrow> world \<Rightarrow> job \<times> world" where
  "renderInclude E pe opts n context w =
     (case map_of (node_attrs n) ''file'' of
        None \<Rightarrow> (rejected (TypeError ''path.join''), w)
      | Some f \<Rightarrow> (render E pe (include_path E (filename opts) f) context (cache opts), w))"

definition wrap_tag :: "options \<Rightarrow> node \<Rightarrow> job \<times> world \<Rightarrow> job \<times> world" where
  \<comment> \<open>\<^verbatim>\<open>return renderTemplateTag(node, await ...)\<close> inside the \<^verbatim>\<open>try\<close>\<close>
  "wrap_tag opts n p = (case p of (j, w) \<Rightarrow>
     (catch_job (then_job j (\<lambda>c. Inr (renderTemplateTag (node_tag n) c))) (raiseTemplateError opts n), w))"

definition parseElement_body :: "env \<Rightarrow> (options \<Rightarrow> renderer) \<Rightarrow> options \<Rightarrow> renderer" where
  "parseElement_body E pe opts a context w =
     (let n = heap w ! a; tag = node_tag n in
      if node_type n = Some DOCUMENT_TYPE_NODE then (resolved (node_raw n), w)
      else if node_type n = Some TEXT_NODE \<or> node_type n = Some COMMENT_NODE
              \<or> node_type n = Some CDATA_SECTION_NODE
      then (catch_job (settled (resolveExpression E (node_raw n) context)) (raiseTemplateError opts n), w)
      else if tag = ''t-for'' then wrap_tag opts n (renderFor E (pe opts) n context w)
      else if tag = ''t-if'' then wrap_tag opts n (renderIf E (pe opts) a context w)
      else if tag = ''t-elif'' then wrap_tag opts n (renderElif E (pe opts) a context w)
      else if tag = ''t-else'' then wrap_tag opts n (renderElse E (pe opts) a context w)
      else if tag = ''t-with'' then wrap_tag opts n (renderWith E (pe opts) n context w)
      else if tag = ''t-tree'' then wrap_tag opts n (renderTree E (pe opts) n context w)
      else if tag = ''t-children'' then
        (case renderChildren E (pe opts) n context w of
           (Inl e, w1) \<Rightarrow> (rejected (raiseTemplateError opts n e), w1)
         | (Inr j, w1) \<Rightarrow> (j, w1))
      else if tag = ''t-include'' then wrap_tag opts n (renderInclude E pe opts n context w)
      else if tag = ''t-html'' then wrap_tag opts n (renderHTML E (pe opts) n context w)
      else (case start_all (\<lambda>child. pe opts child context) (node_children n) w of
              (childrenElements, w1) \<Rightarrow>
                (catch_job
                   (join_jobs childrenElements
                      (\<lambda>ss. case resolveExpression E (attrsString n) context of
                               Inl e \<Rightarrow> Inl e
                             | Inr parsedAttrs \<Rightarrow>
                                 Inr (''<'' @ tag @ parsedAttrs @ ''>'' @ concat ss @ ''</'' @ tag @ ''>'')))
                   (raiseTemplateError opts n), w1)))"

text \<open>
  \<^verbatim>\<open>parseElement\<close> calls itself through the directives, on the children of the node, on
  the stored body of a \<^verbatim>\<open>t-tree\<close> and on the nodes of an included file, so it need not
  return.  The first argument bounds the depth of these calls; where it is reached
  the job is \<open>diverged\<close>.
\<close>

primrec parseElement :: "nat \<Rightarrow> env \<Rightarrow> options \<Rightarrow> renderer" where
  "parseElement 0 E = (\<lambda>opts a context w. (diverged, w))"
| "parseElement (Suc k) E = parseElement_body E (parseElement k E)"

definition run_engine :: "nat \<Rightarrow> env \<Rightarrow> options \<Rightarrow> string \<Rightarrow> ctx \<Rightarrow> job" where
  \<comment> \<open>an engine's \<^verbatim>\<open>render()\<close> from the call to the value of its promise\<close>
  "run_engine k E opts content context w =
     (case Engine_render E (parseElement k E) opts content context w of (j, w1) \<Rightarrow> j w1)"

definition outcome :: "string result \<Rightarrow> (err + string) option" where
  "outcome r = map_option fst r"

section \<open>A runner for property paths\<close>

text \<open>
  Modelled from the spec: \<^verbatim>\<open>coderunner.js\<close> is not part of the sources.  The spec asks
  of the evaluator that it supports property-path access such as \<^verbatim>\<open>a.b.c\<close>, that the
  \<^verbatim>\<open>of\<close> form iterates a sequence and yields its elements, and that the \<^verbatim>\<open>in\<close> form
  iterates a mapping and yields objects with a \<^verbatim>\<open>key\<close> and a \<^verbatim>\<open>value\<close>.  \<open>path_value\<close> is
  that evaluator for expressions that are a property path.  It serves the worked
  examples; the general theorems take any \<open>env\<close>.
\<close>

fun walk :: "jsval \<Rightarrow> string list \<Rightarrow> err + jsval" where
  "walk v [] = Inr v"
| "walk v (k # ks) = (case get_prop v k of Inl e \<Rightarrow> Inl e | Inr v' \<Rightarrow> walk v' ks)"

definition path_value :: "ctx \<Rightarrow> string \<Rightarrow> err + jsval" where
  "path_value c ex = (case split ex ''.'' of
      [] \<Rightarrow> Inr Undefined
    | x # ks \<Rightarrow> (case map_of c x of
                   None \<Rightarrow> Inl (Error (x @ '' is not defined''))
                 | Some v \<Rightarrow> walk v ks))"

definition path_items :: "bool \<Rightarrow> ctx \<Rightarrow> string \<Rightarrow> string option \<Rightarrow> err + jsval list" where
  "path_items pairs c v d = (case d of
      None \<Rightarrow> Inl (Error ''undefined is not defined'')
    | Some dn \<Rightarrow> (case path_value c dn of
        Inl e \<Rightarrow> Inl e
      | Inr (Arr xs) \<Rightarrow> if pairs then Inl (TypeError ''not a mapping'') else Inr xs
      | Inr (Obj kvs) \<Rightarrow>
          if pairs then Inr (map (\<lambda>(k, x). Obj [(''key'', Str k), (''value'', x)]) kvs)
          else Inl (TypeError ''not iterable'')
      | Inr _ \<Rightarrow> Inl (TypeError ''not iterable'')))"

definition path_env :: "(nat \<Rightarrow> nat) \<Rightarrow> (nat \<Rightarrow> nat) \<Rightarrow> env" where
  \<comment> \<open>the path runner, no files, the identity for the digest, and the given clock and
      random readings; \<^verbatim>\<open>JSON.stringify\<close> is not needed by the examples\<close>
  "path_env clock rnd = \<lparr>getExpressionValue = path_value, runForOf = path_items False,
     runForIn = path_items True, runCode = (\<lambda>code c. path_value c (drop 7 code)),
     JSON_stringify = (\<lambda>v. ''{}''), md5 = (\<lambda>s. s), readFile = (\<lambda>f. Inl (Error ''ENOENT'')),
     include_path = (\<lambda>f g. g), getTime = clock, random1000 = rnd,
     elapsed = (\<lambda>k. ''0.000001'')\<rparr>"

section \<open>Notions used in the statements\<close>

fun matches :: "pattern \<Rightarrow> nat \<Rightarrow> string \<Rightarrow> string list" where
  \<comment> \<open>the matches that a global replacement finds, in order: the texts its callback is given\<close>
  "matches m skip [] = []"
| "matches m skip (c # cs) =
     (if 0 < skip then matches m (skip - 1) cs
      else case m (c # cs) of
        None \<Rightarrow> matches m 0 cs
      | Some len \<Rightarrow> take len (c # cs) # matches m (len - 1) cs)"

definition steady :: "nat \<Rightarrow> nat \<Rightarrow> nat" where
  \<comment> \<open>readings that do not change: a clock within one millisecond, equal random draws\<close>
  "steady n k = n"

definition advancing :: "nat \<Rightarrow> nat \<Rightarrow> nat" where
  \<comment> \<open>a clock that has moved on at every reading\<close>
  "advancing n k = n + k"

definition plain_opts :: "bool \<Rightarrow> options" where
  "plain_opts c = \<lparr>cache = c, filename = ''t.html''\<rparr>"

text \<open>
  What a render leaves alone.  \<open>job_ok Q\<close> says of a job, \<open>call_ok Q\<close> of a call, that the
  world it returns is related by \<open>Q\<close> to the world it was run in; \<open>frame Q E\<close> says that
  \<open>Q\<close> is a preorder kept by the four ways in which the interpreter writes to the world.
\<close>

definition job_ok :: "(world \<Rightarrow> world \<Rightarrow> bool) \<Rightarrow> (world \<Rightarrow> ((err + 'a) \<times> world) option) \<Rightarrow> bool" where
  "job_ok Q j = (\<forall>w r w'. j w = Some (r, w') \<longrightarrow> Q w w')"

definition call_ok :: "(world \<Rightarrow> world \<Rightarrow> bool)
    \<Rightarrow> (world \<Rightarrow> (world \<Rightarrow> ((err + 'a) \<times> world) option) \<times> world) \<Rightarrow> bool" where
  "call_ok Q f = (\<forall>w j w'. f w = (j, w') \<longrightarrow> Q w w' \<and> job_ok Q j)"

definition frame :: "(world \<Rightarrow> world \<Rightarrow> bool) \<Rightarrow> env \<Rightarrow> bool" where
  "frame Q E = ((\<forall>w. Q w w) \<and> (\<forall>a b c. Q a b \<longrightarrow> Q b c \<longrightarrow> Q a c)
     \<and> (\<forall>a b w. Q w (set_condition a b w))
     \<and> (\<forall>w v. Q w (w\<lparr>TREE_CACHE := v\<rparr>))
     \<and> (\<forall>w v. Q w (w\<lparr>ticks := v\<rparr>))
     \<and> (\<forall>c b w r w'. parseDOM E c b w = (r, w') \<longrightarrow> Q w w'))"







section \<open>Lemmas\<close>

lemma replace_err_fails:
  "x \<in> set (matches m skip s) \<Longrightarrow> f x = Inl e \<Longrightarrow> \<exists>e'. replace_err m f skip s = Inl e'"
proof (induction s arbitrary: skip)
  case Nil
  then show ?case by simp
next
  case (Cons c cs)
  show ?case
  proof (cases "0 < skip")
    case True
    with Cons.prems have "x \<in> set (matches m (skip - 1) cs)" by simp
    from Cons.IH [OF this Cons.prems(2)] True show ?thesis by simp
  next
    case False
    show ?thesis
    proof (cases "m (c # cs)")
      case None
      with False Cons.prems have "x \<in> set (matches m 0 cs)" by simp
      from Cons.IH [OF this Cons.prems(2)] False None show ?thesis by auto
    next
      case (Some len)
      show ?thesis
      proof (cases "f (take len (c # cs))")
        case (Inl a)
        with False Some show ?thesis by simp
      next
        case (Inr p)
        with False Some Cons.prems have "x \<in> set (matches m (len - 1) cs)" by auto
        from Cons.IH [OF this Cons.prems(2)] False Some Inr show ?thesis by auto
      qed
    qed
  qed
qed

lemma digit_val_char: "d < 10 \<Longrightarrow> digit_val (digit_char d) = int d"
proof -
  assume "d < 10"
  then consider "d = 0" | "d = 1" | "d = 2" | "d = 3" | "d = 4" | "d = 5" | "d = 6" | "d = 7"
    | "d = 8" | "d = 9" by atomize_elim arith
  then show ?thesis
    by cases (simp_all add: digit_val_def digit_char_def)
qed

lemma digits_value_snoc: "digits_value (xs @ [c]) = 10 * digits_value xs + digit_val c"
  by (simp add: digits_value_def)

lemma digits_value_show_nat: "digits_value (show_nat n) = int n"
proof (induction n rule: show_nat.induct)
  case (1 n)
  show ?case
  proof (cases "n < 10")
    case True
    then show ?thesis
      using digits_value_snoc [of "[]" "digit_char n"]
      by (simp add: show_nat.simps [of n] digit_val_char digits_value_def)
  next
    case False
    have "n mod 10 < 10" by simp
    moreover have "int n = 10 * int (n div 10) + int (n mod 10)"
      by (simp add: zdiv_int zmod_int)
    ultimately show ?thesis
      using False 1 by (simp add: show_nat.simps [of n] digits_value_snoc digit_val_char)
  qed
qed

lemma show_nat_inj: "show_nat a = show_nat b \<Longrightarrow> a = b"
  by (metis digits_value_show_nat of_nat_eq_iff)

lemma frame_refl: "frame Q E \<Longrightarrow> Q w w"
  by (simp add: frame_def)














lemma call_ok_const: "frame Q E \<Longrightarrow> job_ok Q j \<Longrightarrow> call_ok Q (\<lambda>w. (j, w))"
  by (simp add: call_ok_def frame_refl)







lemma call_ok_map_job:
  assumes "call_ok Q f" and "\<And>j. job_ok Q j \<Longrightarrow> job_ok Q (g j)"
  shows "call_ok Q (\<lambda>w. case f w of (j, w1) \<Rightarrow> (g j, w1))"
  using assms by (auto simp: call_ok_def split: prod.splits)

































































section \<open>Worked renders\<close>

text \<open>
  C9.  Rendering \<^verbatim>\<open><t-elif on="x">...</t-elif>\<close> with no \<^verbatim>\<open>t-if\<close> before it fails, for every
  runner, context and file name.  The error that reaches the caller is not the
  Sequencing error and not a \<open>ParseError\<close> with the node's location: \<^verbatim>\<open>renderElif\<close>
  throws \<^verbatim>\<open>t-elif must after t-if or t-elif\<close>, and \<^verbatim>\<open>raiseTemplateError\<close>, which should
  annotate it, itself throws on \<^verbatim>\<open>node.line.toString()\<close>, no node having a \<^verbatim>\<open>line\<close>.
\<close>

theorem elif_alone_loses_sequencing_error:
  \<open>outcome (run_engine (Suc k) E \<lparr>cache = False, filename = f\<rparr>
      ''<t-elif on="x">...</t-elif>'' context init_world)
   = Some (Inl (TypeError ''node.line.toString''))\<close>
  by code_simp

text \<open>
  C4.  The tree builder raises on a closing tag too many that is followed by another
  tag: the extra \<^verbatim>\<open></p>\<close> closes the synthetic root, and the next element is appended
  to the parent of the root, which it does not have.
\<close>

theorem parse_raises_on_extra_closing_tag:
  \<open>fst (parse ''<p>a</p></p><p>b</p>'' init_world) = Inl (TypeError ''currentNode.parent is undefined'')\<close>
  by code_simp

text \<open>
  C2.  The session entry of a \<^verbatim>\<open>t-tree\<close> is deleted as soon as the synchronous part of
  its rendering returns, not when its rendering completes.  A \<^verbatim>\<open>t-children\<close> that is
  reached after a suspension, here in the second iteration of a \<^verbatim>\<open>t-for\<close> in the body,
  finds no entry and the render fails.
\<close>

theorem tree_session_gone_before_body_completes:
  \<open>outcome (run_engine 6 (path_env (\<lambda>k. 1000 + k) (\<lambda>k. 7)) \<lparr>cache = False, filename = ''t.html''\<rparr>
      ''<t-tree on="tree as item"><t-for on="x of list"><t-children></t-children></t-for></t-tree>''
      [(''tree'', Arr [Obj []]), (''list'', Arr [Num 1, Num 2])] init_world)
   = Some (Inl (TypeError ''node.line.toString''))\<close>
  by code_simp


text \<open>
  C10.  When the value of an interpolation span is \<^verbatim>\<open>null\<close>, the callback of the resolver
  throws the \<open>TypeError\<close> of reading \<^verbatim>\<open>value.constructor\<close>, and \<^verbatim>\<open>resolveExpression\<close> does not
  return a text: it throws (that error, or the error of an earlier span).  A text node
  with such a span therefore rejects.
\<close>

theorem null_value_aborts:
  assumes "span \<in> set (matches m_expr 0 content)"
    and "getExpressionValue E context (trim (take (length span - 4) (drop 2 span))) = Inr Null"
  shows "expr_cb E context span = Inl (TypeError ''value.constructor'')
    \<and> (\<exists>e. resolveExpression E content context = Inl e)"
proof -
  have cb: "expr_cb E context span = Inl (TypeError ''value.constructor'')"
    using assms(2) by (simp add: expr_cb_def)
  with assms(1) have "\<exists>e. resolveExpression E content context = Inl e"
    unfolding resolveExpression_def by (rule replace_err_fails)
  with cb show ?thesis by simp
qed

theorem null_value_aborts_witness:
  \<open>''{{ x }}'' \<in> set (matches m_expr 0 ''a{{ x }}b'')
   \<and> getExpressionValue (path_env (steady 5) (steady 7)) [(''x'', Null)]
        (trim (take (length ''{{ x }}'' - 4) (drop 2 ''{{ x }}''))) = Inr Null
   \<and> expr_cb (path_env (steady 5) (steady 7)) [(''x'', Null)] ''{{ x }}'' = Inl (TypeError ''value.constructor'')
   \<and> (\<exists>e. resolveExpression (path_env (steady 5) (steady 7)) ''a{{ x }}b'' [(''x'', Null)] = Inl e)
   \<and> outcome (run_engine 1 (path_env (steady 5) (steady 7)) (plain_opts False) ''a{{ x }}b''
        [(''x'', Null)] init_world) = Some (Inl (TypeError ''node.line.toString''))\<close>
proof -
  have h1: \<open>''{{ x }}'' \<in> set (matches m_expr 0 ''a{{ x }}b'')\<close>
    by code_simp
  have h2: \<open>getExpressionValue (path_env (steady 5) (steady 7)) [(''x'', Null)]
        (trim (take (length ''{{ x }}'' - 4) (drop 2 ''{{ x }}''))) = Inr Null\<close>
    by code_simp
  have h3: \<open>outcome (run_engine 1 (path_env (steady 5) (steady 7)) (plain_opts False) ''a{{ x }}b''
        [(''x'', Null)] init_world) = Some (Inl (TypeError ''node.line.toString''))\<close>
    by code_simp
  from null_value_aborts [OF h1 h2] h1 h2 h3 show ?thesis by simp
qed

text \<open>
  C3 as amended.  The identifier of a session is the decimal text of the clock
  reading followed by that of the random integer.  Two identifiers whose clock
  readings have the same number of digits are equal only if both the clock readings
  and the random integers are equal.
\<close>

theorem tree_ids_differ_with_readings:
  assumes "length (show_nat t1) = length (show_nat t2)"
    and "treeId_of t1 r1 = treeId_of t2 r2"
  shows "t1 = t2 \<and> r1 = r2"
  using assms by (auto simp: treeId_of_def dest: show_nat_inj)

theorem tree_ids_differ_with_readings_witness:
  "length (show_nat 1700000000000) = length (show_nat 1700000000001)
   \<and> treeId_of 1700000000000 7 \<noteq> treeId_of 1700000000001 7"
proof -
  have h: "length (show_nat 1700000000000) = length (show_nat 1700000000001)"
    by (simp add: show_nat.simps)
  from tree_ids_differ_with_readings [OF h, of 7 7] h show ?thesis by auto
qed

text \<open>
  C3 as stated fails.  Within one millisecond and with equal random draws, the
  \<^verbatim>\<open>t-tree\<close> nested in the body of another gets the identifier of the outer one; it
  overwrites the outer entry and then deletes it, and the \<^verbatim>\<open>t-children\<close> of the outer
  directive finds nothing.  With a clock that has moved on the same template renders.
  Distinct readings can also give one identifier.
\<close>

theorem tree_ids_collide:
  \<open>treeId_of (steady 5 0) (steady 7 0) = treeId_of (steady 5 1) (steady 7 1)
   \<and> outcome (run_engine 6 (path_env (steady 5) (steady 7)) (plain_opts False)
        ''<t-tree on="a as x"><t-tree on="b as y">i</t-tree><t-children></t-children></t-tree>''
        [(''a'', Arr [Obj []]), (''b'', Arr [Num 1])] init_world)
      = Some (Inl (TypeError ''node.line.toString''))
   \<and> outcome (run_engine 6 (path_env (advancing 5) (steady 7)) (plain_opts False)
        ''<t-tree on="a as x"><t-tree on="b as y">i</t-tree><t-children></t-children></t-tree>''
        [(''a'', Arr [Obj []]), (''b'', Arr [Num 1])] init_world)
      = Some (Inr (''<!-- T-TREE BEGIN -->'' @ [CHR 0x0A] @ ''<!-- T-TREE BEGIN -->'' @ [CHR 0x0A]
           @ ''i'' @ [CHR 0x0A] @ ''<!-- T-TREE END -->'' @ [CHR 0x0A] @ ''<!-- T-TREE END -->''))
   \<and> treeId_of 1 23 = treeId_of 12 3\<close>
  by code_simp

text \<open>
  C6.  With \<^verbatim>\<open>visible\<close> false, \<^verbatim>\<open><t-if on="visible">A</t-if><t-else>B</t-else>\<close> renders the
  content of the \<^verbatim>\<open>t-else\<close> and not that of the \<^verbatim>\<open>t-if\<close>.  But the getter \<^verbatim>\<open>nextElement\<close>
  passes over one sibling that is not an element, not more: with a text and a comment
  between the two directives the outcome is recorded nowhere, and the \<^verbatim>\<open>t-else\<close>, which
  is the next element sibling, fails as if no \<^verbatim>\<open>t-if\<close> came before it.
\<close>

theorem else_after_two_plain_siblings_fails:
  \<open>outcome (run_engine 3 (path_env (steady 5) (steady 7)) (plain_opts False)
      ''<t-if on="visible">A</t-if><t-else>B</t-else>'' [(''visible'', Bool False)] init_world)
     = Some (Inr (''<!-- T-IF BEGIN -->'' @ [CHR 0x0A] @ ''<!-- FALSE -->'' @ [CHR 0x0A]
          @ ''<!-- T-IF END --><!-- T-ELSE BEGIN -->'' @ [CHR 0x0A] @ ''B'' @ [CHR 0x0A]
          @ ''<!-- T-ELSE END -->''))
   \<and> outcome (run_engine 3 (path_env (steady 5) (steady 7)) (plain_opts False)
      ''<t-if on="visible">A</t-if>x<!--c--><t-else>B</t-else>'' [(''visible'', Bool False)] init_world)
     = Some (Inl (TypeError ''node.line.toString''))\<close>
  by code_simp










end
